theory Spec2Isabelle
  imports Main "HOL-Library.Multiset"
begin

section \<open>Data model (main.py, classes User and Post)\<close>

text \<open>
  The two ORM classes become records. Both classes have a column \<open>id\<close>; the fields are
  called \<open>u_id\<close> and \<open>p_id\<close> here, since \<open>id\<close> is the identity function of HOL.
  Ids are the positive integers SQLite assigns to an INTEGER PRIMARY KEY; \<open>created_at\<close>
  is the value of \<open>datetime.now\<close> at insertion, a point on the time line read as an
  integer (microseconds). A Python \<open>str\<close> is the list of the bytes of its UTF-8 encoding.
\<close>

record user =
  u_id :: nat
  username :: string
  email :: string
  hashed_password :: string
  is_admin :: bool

record post =
  p_id :: nat
  content :: string
  image_path :: "string option"
  created_at :: int
  user_id :: nat

text \<open>
  The state a request handler can read and change: the two tables, each as the list of
  its rows in rowid order (a table scan without ORDER BY returns them in that order), the
  files below the upload directory, and the sequence of side effects performed so far,
  which records in which order the file system and the database were written.
\<close>

datatype effect = FileWrite string | CommitUser nat | CommitPost nat

record world =
  users :: "user list"
  posts :: "post list"
  files :: "(string \<times> string) list"
  trace :: "effect list"

text \<open>
  What the program calls but does not define: the password context of passlib (hashing
  draws a random salt, which is an argument here), the ORDER BY of the database engine,
  \<open>os.path.splitext\<close> (only the extension it returns is used) and the file system's
  \<open>open\<close> and \<open>write\<close>, which report whether they succeeded and leave the file store
  in some state either way.

  The password context does not answer every call: \<open>hash\<close> and \<open>verify\<close> raise on some
  passwords (with bcrypt, one that contains a NUL byte or exceeds the size limit), and no
  route catches that. \<open>pwd_hash_raises\<close> and \<open>pwd_verify_raises\<close> tell on which arguments
  they raise; \<open>pwd_hash\<close> and \<open>pwd_verify\<close> give the result on the others. The password
  that \<open>create_superuser\<close> hashes is the literal \<open>admin\<close>, which is hashed without error.
  Likewise \<open>set_cookie\<close> of the response raises when the value has a character that
  latin-1 cannot encode; \<open>cookie_encodable\<close> tells for which values it succeeds.
\<close>

record env =
  pwd_hash :: "string \<Rightarrow> string \<Rightarrow> string"
  pwd_hash_raises :: "string \<Rightarrow> bool"
  pwd_verify :: "string \<Rightarrow> string \<Rightarrow> bool"
  pwd_verify_raises :: "string \<Rightarrow> string \<Rightarrow> bool"
  cookie_encodable :: "string \<Rightarrow> bool"
  order_by_created_at_desc :: "post list \<Rightarrow> post list"
  splitext_ext :: "string \<Rightarrow> string"
  open_write :: "(string \<times> string) list \<Rightarrow> string \<Rightarrow> string \<Rightarrow> bool \<times> (string \<times> string) list"

text \<open>
  What SQL promises of \<open>ORDER BY created_at DESC\<close>: the same rows, no row before one
  with a later \<open>created_at\<close>. The order of rows with equal \<open>created_at\<close> is the engine's
  choice.
\<close>

definition newest_first :: "post list \<Rightarrow> bool" where
  "newest_first ps = sorted_wrt (\<lambda>a b. created_at b \<le> created_at a) ps"

definition order_contract :: "(post list \<Rightarrow> post list) \<Rightarrow> bool" where
  "order_contract ord = (\<forall>ps. mset (ord ps) = mset ps \<and> newest_first (ord ps))"

text \<open>
  The engine of this program is SQLite (\<open>SQLALCHEMY_DATABASE_URL\<close>), which sorts the rows
  of a scan and returns rows with equal \<open>created_at\<close> in the order of the scan, that is
  in rowid order.
\<close>

definition keeps_ties :: "(post list \<Rightarrow> post list) \<Rightarrow> bool" where
  "keeps_ties ord =
     (\<forall>ps t. filter (\<lambda>p. created_at p = t) (ord ps) = filter (\<lambda>p. created_at p = t) ps)"

text \<open>A sorting function that keeps the promise of SQL and the order of equal rows.\<close>

definition stable_desc :: "post list \<Rightarrow> post list" where
  "stable_desc ps = sort_key (\<lambda>p. - created_at p) ps"

section \<open>Responses and errors\<close>

datatype cookie_op = NoCookie | SetCookie string string | DeleteCookie string

datatype view =
    IndexView "user option"
  | RegisterView
  | LoginView
  | DashboardView user
  | ProfileView user "post list" "user option"
  | AdminView "user list" "post list" user

datatype response =
    RedirectResponse string nat cookie_op
  | TemplateResponse string view

text \<open>
  Besides \<open>HTTPException\<close>, which the routes raise themselves, the exceptions that
  leave a route uncaught: of the commit, of the file write, of the password context and
  of \<open>set_cookie\<close>.
\<close>

datatype http_error =
    HTTPException nat string
  | IntegrityError
  | OSError
  | PasswordValueError
  | UnicodeEncodeError

type_synonym result = "http_error + response"

record upload =
  filename :: "string option"
  file_bytes :: string

section \<open>Persistence\<close>

text \<open>SQLite gives a new row the largest id in use plus one, and 1 in an empty table.\<close>

definition next_id :: "nat list \<Rightarrow> nat" where
  "next_id ids = fold max ids 0 + 1"

text \<open>
  \<open>db.add\<close> and \<open>db.commit\<close> of a User: both \<open>username\<close> and \<open>email\<close> are declared
  \<open>unique=True\<close>, so the commit raises when either is taken.
\<close>

definition commit_user :: "world \<Rightarrow> string \<Rightarrow> string \<Rightarrow> string \<Rightarrow> bool \<Rightarrow> world option" where
  "commit_user w un em hp adm =
     (if find (\<lambda>u. username u = un \<or> email u = em) (users w) \<noteq> None then None
      else let i = next_id (map u_id (users w)) in
        Some (w\<lparr>users := users w @
                 [\<lparr>u_id = i, username = un, email = em, hashed_password = hp, is_admin = adm\<rparr>],
               trace := trace w @ [CommitUser i]\<rparr>))"

definition commit_post :: "world \<Rightarrow> string \<Rightarrow> string option \<Rightarrow> int \<Rightarrow> nat \<Rightarrow> world" where
  "commit_post w c ip now uid =
     (let i = next_id (map p_id (posts w)) in
        w\<lparr>posts := posts w @
             [\<lparr>p_id = i, content = c, image_path = ip, created_at = now, user_id = uid\<rparr>],
          trace := trace w @ [CommitPost i]\<rparr>)"

section \<open>Startup\<close>

definition create_superuser :: "env \<Rightarrow> string \<Rightarrow> world \<Rightarrow> world option" where
  "create_superuser e salt w =
     (let user_count = length (users w) in
      if user_count = 0 then
        commit_user w ''admin'' ''admin@example.com'' (pwd_hash e salt ''admin'') True
      else Some w)"

definition lifespan :: "env \<Rightarrow> string \<Rightarrow> world \<Rightarrow> world option" where
  "lifespan e salt w = create_superuser e salt w"

section \<open>Session resolver\<close>

definition get_current_user :: "world \<Rightarrow> string option \<Rightarrow> user option" where
  "get_current_user w cookie =
     (case cookie of
        None \<Rightarrow> None
      | Some name \<Rightarrow>
          if name = [] then None
          else find (\<lambda>u. username u = name) (users w))"

section \<open>Routes\<close>

definition home :: "world \<Rightarrow> string option \<Rightarrow> result" where
  "home w cookie = Inr (TemplateResponse ''index.html'' (IndexView (get_current_user w cookie)))"

definition register_page :: result where
  "register_page = Inr (TemplateResponse ''register.html'' RegisterView)"

definition register_user ::
  "env \<Rightarrow> string \<Rightarrow> world \<Rightarrow> string \<Rightarrow> string \<Rightarrow> string \<Rightarrow> result \<times> world" where
  "register_user e salt w un pw em =
     (let existing_user = find (\<lambda>u. username u = un \<or> email u = em) (users w) in
      if existing_user \<noteq> None then
        (Inl (HTTPException 400 ''Username or email already registered''), w)
      else if pwd_hash_raises e pw then (Inl PasswordValueError, w)
      else
        let hp = pwd_hash e salt pw;
            adm = (length (users w) = 0)
        in case commit_user w un em hp adm of
             None \<Rightarrow> (Inl IntegrityError, w)
           | Some w' \<Rightarrow> (Inr (RedirectResponse ''/login'' 303 NoCookie), w'))"

definition login_page :: result where
  "login_page = Inr (TemplateResponse ''login.html'' LoginView)"

definition login :: "env \<Rightarrow> world \<Rightarrow> string \<Rightarrow> string \<Rightarrow> result" where
  "login e w un pw =
     (case find (\<lambda>u. username u = un) (users w) of
        None \<Rightarrow> Inl (HTTPException 401 ''Invalid username or password'')
      | Some u \<Rightarrow>
          if pwd_verify_raises e pw (hashed_password u) then Inl PasswordValueError
          else if \<not> pwd_verify e pw (hashed_password u) then
            Inl (HTTPException 401 ''Invalid username or password'')
          else if \<not> cookie_encodable e (username u) then Inl UnicodeEncodeError
          else Inr (RedirectResponse ''/dashboard'' 303 (SetCookie ''username'' (username u))))"

definition logout :: result where
  "logout = Inr (RedirectResponse ''/'' 303 (DeleteCookie ''username''))"

definition dashboard :: "world \<Rightarrow> string option \<Rightarrow> result" where
  "dashboard w cookie =
     (case get_current_user w cookie of
        None \<Rightarrow> Inr (RedirectResponse ''/login'' 303 NoCookie)
      | Some current_user \<Rightarrow> Inr (TemplateResponse ''dashboard.html'' (DashboardView current_user)))"

definition UPLOAD_DIR :: string where
  "UPLOAD_DIR = ''static/uploads''"

text \<open>
  Lines 218 to 229 of \<open>create_post\<close>: the image is saved when there is an upload and its
  file name is neither missing nor empty. The result is the path to store in the Post, or
  the error the failed write raises.
\<close>

definition save_image ::
  "env \<Rightarrow> string \<Rightarrow> world \<Rightarrow> upload option \<Rightarrow> (http_error + string option) \<times> world" where
  "save_image e uuid4 w img =
     (case img of
        None \<Rightarrow> (Inr None, w)
      | Some up \<Rightarrow>
          (case filename up of
             None \<Rightarrow> (Inr None, w)
           | Some fn \<Rightarrow>
               if fn = [] then (Inr None, w)
               else
                 let file_extension = splitext_ext e fn;
                     unique_filename = uuid4 @ file_extension;
                     path = UPLOAD_DIR @ ''/'' @ unique_filename;
                     (ok, fs) = open_write e (files w) path (file_bytes up);
                     w1 = w\<lparr>files := fs, trace := trace w @ [FileWrite path]\<rparr>
                 in if ok then (Inr (Some (''uploads/'' @ unique_filename)), w1)
                    else (Inl OSError, w1)))"

definition create_post ::
  "env \<Rightarrow> string \<Rightarrow> int \<Rightarrow> world \<Rightarrow> string option \<Rightarrow> string \<Rightarrow> upload option \<Rightarrow> result \<times> world" where
  "create_post e uuid4 now w cookie c img =
     (case get_current_user w cookie of
        None \<Rightarrow> (Inr (RedirectResponse ''/login'' 303 NoCookie), w)
      | Some current_user \<Rightarrow>
          (case save_image e uuid4 w img of
             (Inl err, w1) \<Rightarrow> (Inl err, w1)
           | (Inr ip, w1) \<Rightarrow>
               (Inr (RedirectResponse ''/dashboard'' 303 NoCookie),
                commit_post w1 c ip now (u_id current_user))))"

definition user_profile :: "env \<Rightarrow> world \<Rightarrow> string option \<Rightarrow> string \<Rightarrow> result" where
  "user_profile e w cookie un =
     (let current_user = get_current_user w cookie in
      case find (\<lambda>u. username u = un) (users w) of
        None \<Rightarrow> Inl (HTTPException 404 ''User not found'')
      | Some profile_user \<Rightarrow>
          Inr (TemplateResponse ''profile.html''
                 (ProfileView profile_user
                    (order_by_created_at_desc e
                       (filter (\<lambda>p. user_id p = u_id profile_user) (posts w)))
                    current_user)))"

definition admin_dashboard :: "env \<Rightarrow> world \<Rightarrow> string option \<Rightarrow> result" where
  "admin_dashboard e w cookie =
     (case get_current_user w cookie of
        None \<Rightarrow> Inl (HTTPException 403 ''Not authorized'')
      | Some current_user \<Rightarrow>
          if \<not> is_admin current_user then Inl (HTTPException 403 ''Not authorized'')
          else Inr (TemplateResponse ''admin.html''
                      (AdminView (users w) (order_by_created_at_desc e (posts w)) current_user)))"

section \<open>Runs of the application\<close>

text \<open>
  A request carries what the framework hands to the route: the form fields, the value of
  the \<open>username\<close> cookie if the client sent one, and the values the handler draws from
  its surroundings while it runs (the salt of the hash, the \<open>uuid4\<close>, the clock).
\<close>

datatype request =
    GetHome "string option"
  | GetRegister
  | PostRegister string string string string
  | GetLogin
  | PostLogin string string
  | GetLogout
  | GetDashboard "string option"
  | PostPost string int "string option" string "upload option"
  | GetProfile "string option" string
  | GetAdmin "string option"

fun handle :: "env \<Rightarrow> world \<Rightarrow> request \<Rightarrow> result \<times> world" where
  "handle e w (GetHome cookie) = (home w cookie, w)"
| "handle e w GetRegister = (register_page, w)"
| "handle e w (PostRegister salt un pw em) = register_user e salt w un pw em"
| "handle e w GetLogin = (login_page, w)"
| "handle e w (PostLogin un pw) = (login e w un pw, w)"
| "handle e w GetLogout = (logout, w)"
| "handle e w (GetDashboard cookie) = (dashboard w cookie, w)"
| "handle e w (PostPost uuid4 now cookie c img) = create_post e uuid4 now w cookie c img"
| "handle e w (GetProfile cookie un) = (user_profile e w cookie un, w)"
| "handle e w (GetAdmin cookie) = (admin_dashboard e w cookie, w)"

fun run :: "env \<Rightarrow> world \<Rightarrow> request list \<Rightarrow> world" where
  "run e w [] = w"
| "run e w (r # rs) = run e (snd (handle e w r)) rs"

text \<open>
  A sequence of registrations, each given as salt, username, password and email: the
  Users the successful ones created, in order. A successful registration appends its
  User to the table, so the User it created is the last row.
\<close>

fun register_seq :: "env \<Rightarrow> world \<Rightarrow> (string \<times> string \<times> string \<times> string) list \<Rightarrow> user list" where
  "register_seq e w [] = []"
| "register_seq e w ((salt, un, pw, em) # rs) =
     (case register_user e salt w un pw em of
        (Inl err, w') \<Rightarrow> register_seq e w' rs
      | (Inr resp, w') \<Rightarrow> last (users w') # register_seq e w' rs)"

text \<open>
  The client's side of the session: the \<open>username\<close> cookie it holds after a response,
  given the one it held before.
\<close>

fun cookie_after :: "result \<Rightarrow> string option \<Rightarrow> string option" where
  "cookie_after (Inr (RedirectResponse url code (SetCookie k v))) jar =
     (if k = ''username'' then Some v else jar)"
| "cookie_after (Inr (RedirectResponse url code (DeleteCookie k))) jar =
     (if k = ''username'' then None else jar)"
| "cookie_after r jar = jar"

section \<open>A concrete environment\<close>

text \<open>
  Stand-ins for the external services, used to evaluate the routes on concrete inputs:
  a hash that keeps the salt in front of the password, a password context that raises on
  a password with a NUL byte, a \<open>set_cookie\<close> that accepts the values whose characters
  are all below U+0100 (in UTF-8, those without a byte from 0xC4 on), an engine with a
  stable sort, the text from the last dot as the extension, and a file system whose
  writes succeed.
\<close>

definition demo_env :: env where
  "demo_env =
     \<lparr>pwd_hash = (\<lambda>salt pw. salt @ ''$'' @ pw),
      pwd_hash_raises = (\<lambda>pw. CHR 0x00 \<in> set pw),
      pwd_verify = (\<lambda>pw h. dropWhile (\<lambda>c. c \<noteq> CHR ''$'') h = ''$'' @ pw),
      pwd_verify_raises = (\<lambda>pw h. CHR 0x00 \<in> set pw),
      cookie_encodable = (\<lambda>v. list_all (\<lambda>c. (of_char c :: nat) < 0xC4) v),
      order_by_created_at_desc = stable_desc,
      splitext_ext = (\<lambda>fn. if CHR ''.'' \<in> set fn
                             then CHR ''.'' # rev (takeWhile (\<lambda>c. c \<noteq> CHR ''.'') (rev fn))
                             else []),
      open_write = (\<lambda>fs path bytes. (True, (path, bytes) # fs))\<rparr>"

definition empty_world :: world where
  "empty_world = \<lparr>users = [], posts = [], files = [], trace = []\<rparr>"

definition alice :: user where
  "alice = \<lparr>u_id = 1, username = ''alice'', email = ''a@x.com'',
            hashed_password = ''s1$pw1'', is_admin = True\<rparr>"

definition bob :: user where
  "bob = \<lparr>u_id = 2, username = ''bob'', email = ''b@x.com'',
          hashed_password = ''s2$pw2'', is_admin = False\<rparr>"

definition two_users :: world where
  "two_users = \<lparr>users = [alice, bob], posts = [], files = [], trace = []\<rparr>"

text \<open>The same environment with a file system whose writes fail.\<close>

definition failing_disk :: env where
  "failing_disk = demo_env\<lparr>open_write := (\<lambda>fs path bytes. (False, fs))\<rparr>"

text \<open>
  Two posts of \<open>bob\<close> created one after the other: at the same reading of the clock,
  at a later one, and at an earlier one (the local clock was set back in between).
\<close>

definition post_one :: post where
  "post_one = \<lparr>p_id = 1, content = ''first'', image_path = None, created_at = 10, user_id = 2\<rparr>"

definition post_two :: post where
  "post_two = \<lparr>p_id = 2, content = ''second'', image_path = None, created_at = 10, user_id = 2\<rparr>"

definition tied_posts :: world where
  "tied_posts = run demo_env two_users
     [PostPost ''u1'' 10 (Some ''bob'') ''first'' None,
      PostPost ''u2'' 10 (Some ''bob'') ''second'' None]"

definition post_late :: post where
  "post_late = \<lparr>p_id = 2, content = ''second'', image_path = None, created_at = 20, user_id = 2\<rparr>"

definition post_early :: post where
  "post_early = \<lparr>p_id = 2, content = ''second'', image_path = None, created_at = 5, user_id = 2\<rparr>"

definition regressed_posts :: world where
  "regressed_posts = run demo_env two_users
     [PostPost ''u1'' 10 (Some ''bob'') ''first'' None,
      PostPost ''u2'' 5 (Some ''bob'') ''second'' None]"

text \<open>
  A third User whose name starts with a character above U+00FF (U+0141, in UTF-8 the
  bytes C5 81), and a password with a NUL byte.
\<close>

definition lukasz :: user where
  "lukasz = \<lparr>u_id = 3, username = [CHR 0xC5, CHR 0x81] @ ''ukasz'', email = ''l@x.com'',
             hashed_password = ''s3$pw3'', is_admin = False\<rparr>"

definition three_users :: world where
  "three_users = \<lparr>users = [alice, bob, lukasz], posts = [], files = [], trace = []\<rparr>"

definition nul_password :: string where
  "nul_password = ''pw'' @ [CHR 0x00]"

section \<open>Facts about the queries and the environment\<close>

lemma find_SomeD: "find P xs = Some x \<Longrightarrow> x \<in> set xs \<and> P x"
  by (induction xs) (auto split: if_splits)

lemma find_Some_ex: "(\<exists>x. find P xs = Some x) \<longleftrightarrow> (\<exists>x \<in> set xs. P x)"
  by (induction xs) auto

lemma order_contract_stable_desc: "order_contract stable_desc"
  unfolding order_contract_def stable_desc_def newest_first_def
proof (intro allI conjI)
  fix ps :: "post list"
  show "mset (sort_key (\<lambda>p. - created_at p) ps) = mset ps" by simp
  have "sorted (map (\<lambda>p. - created_at p) (sort_key (\<lambda>p. - created_at p) ps))"
    by (rule sorted_sort_key)
  then show "sorted_wrt (\<lambda>a b. created_at b \<le> created_at a) (sort_key (\<lambda>p. - created_at p) ps)"
    by (simp add: sorted_map)
qed

lemma order_contract_demo_env: "order_contract (order_by_created_at_desc demo_env)"
  by (simp add: demo_env_def order_contract_stable_desc)

lemma commit_user_fresh:
  "find (\<lambda>u. username u = un \<or> email u = em) (users w) = None \<Longrightarrow>
   commit_user w un em hp adm =
     Some (w\<lparr>users := users w @
              [\<lparr>u_id = next_id (map u_id (users w)), username = un, email = em,
                hashed_password = hp, is_admin = adm\<rparr>],
            trace := trace w @ [CommitUser (next_id (map u_id (users w)))]\<rparr>)"
  by (simp add: commit_user_def Let_def)

lemma register_user_duplicate:
  "find (\<lambda>u. username u = un \<or> email u = em) (users w) \<noteq> None \<Longrightarrow>
   register_user e salt w un pw em =
     (Inl (HTTPException 400 ''Username or email already registered''), w)"
  by (simp add: register_user_def Let_def)

lemma register_user_raises:
  "find (\<lambda>u. username u = un \<or> email u = em) (users w) = None \<Longrightarrow> pwd_hash_raises e pw \<Longrightarrow>
   register_user e salt w un pw em = (Inl PasswordValueError, w)"
  by (simp add: register_user_def Let_def)

lemma register_user_fresh:
  "find (\<lambda>u. username u = un \<or> email u = em) (users w) = None \<Longrightarrow> \<not> pwd_hash_raises e pw \<Longrightarrow>
   register_user e salt w un pw em =
     (Inr (RedirectResponse ''/login'' 303 NoCookie),
      w\<lparr>users := users w @
           [\<lparr>u_id = next_id (map u_id (users w)), username = un, email = em,
             hashed_password = pwd_hash e salt pw, is_admin = (users w = [])\<rparr>],
        trace := trace w @ [CommitUser (next_id (map u_id (users w)))]\<rparr>)"
  by (simp add: register_user_def Let_def commit_user_fresh)

lemma keeps_ties_stable_desc: "keeps_ties stable_desc"
  unfolding keeps_ties_def stable_desc_def
proof (intro allI)
  fix ps :: "post list" and t :: int
  have "filter (\<lambda>p. - created_at p = - t) (sort_key (\<lambda>p. - created_at p) ps) =
      filter (\<lambda>p. - created_at p = - t) ps"
    by (rule sort_key_stable)
  then show "filter (\<lambda>p. created_at p = t) (sort_key (\<lambda>p. - created_at p) ps) =
      filter (\<lambda>p. created_at p = t) ps"
    by simp
qed

lemma keeps_ties_demo_env: "keeps_ties (order_by_created_at_desc demo_env)"
  by (simp add: demo_env_def keeps_ties_stable_desc)

section \<open>Registration\<close>

text \<open>
  Claim C4. When some existing User has the requested username or the requested email,
  \<open>register_user\<close> raises the 400 error "Username or email already registered" and
  leaves the whole state as it was: no User is created. The error is the same whichever
  of the two fields collides, since one query with a disjunction decides.
\<close>

theorem register_duplicate_rejected:
  "(\<exists>u \<in> set (users w). username u = un \<or> email u = em) \<Longrightarrow>
   register_user e salt w un pw em =
     (Inl (HTTPException 400 ''Username or email already registered''), w)"
  by (rule register_user_duplicate) (auto simp: find_None_iff)

theorem register_duplicate_rejected_witness:
  "(\<exists>u \<in> set (users two_users). username u = ''bob'' \<or> email u = ''new@x.com'') \<and>
   register_user demo_env ''s3'' two_users ''bob'' ''pw3'' ''new@x.com'' =
     (Inl (HTTPException 400 ''Username or email already registered''), two_users) \<and>
   (\<exists>u \<in> set (users two_users). username u = ''carol'' \<or> email u = ''a@x.com'') \<and>
   register_user demo_env ''s3'' two_users ''carol'' ''pw3'' ''a@x.com'' =
     (Inl (HTTPException 400 ''Username or email already registered''), two_users)"
proof -
  have h1: "\<exists>u \<in> set (users two_users). username u = ''bob'' \<or> email u = ''new@x.com''"
    by (simp add: two_users_def alice_def bob_def)
  have h2: "\<exists>u \<in> set (users two_users). username u = ''carol'' \<or> email u = ''a@x.com''"
    by (simp add: two_users_def alice_def bob_def)
  show ?thesis
    using h1 h2 register_duplicate_rejected [OF h1] register_duplicate_rejected [OF h2]
    by simp
qed

section \<open>The session resolver\<close>

text \<open>
  Claim C8. \<open>get_current_user\<close> has a result for every cookie and raises nothing: it
  answers "no identity" (\<open>None\<close>) when the cookie is missing, when it is empty, and when
  no User has it as username; for a non-empty token that is some User's username it
  answers a User of the table with exactly that username. So it resolves an identity
  exactly when the request carries a non-empty token equal to a stored username.
\<close>

theorem get_current_user_total:
  "get_current_user w None = None \<and>
   get_current_user w (Some []) = None \<and>
   ((\<forall>u \<in> set (users w). username u \<noteq> t) \<longrightarrow> get_current_user w (Some t) = None) \<and>
   (t \<noteq> [] \<and> (\<exists>u \<in> set (users w). username u = t) \<longrightarrow>
      (\<exists>u. get_current_user w (Some t) = Some u \<and> u \<in> set (users w) \<and> username u = t)) \<and>
   ((\<exists>u. get_current_user w cookie = Some u) \<longleftrightarrow>
      (\<exists>name. cookie = Some name \<and> name \<noteq> [] \<and> (\<exists>u \<in> set (users w). username u = name)))"
proof (intro conjI impI)
  show "get_current_user w None = None" by (simp add: get_current_user_def)
  show "get_current_user w (Some []) = None" by (simp add: get_current_user_def)
  show "get_current_user w (Some t) = None" if "\<forall>u \<in> set (users w). username u \<noteq> t"
    using that by (auto simp: get_current_user_def find_None_iff)
  show "\<exists>u. get_current_user w (Some t) = Some u \<and> u \<in> set (users w) \<and> username u = t"
    if "t \<noteq> [] \<and> (\<exists>u \<in> set (users w). username u = t)"
  proof -
    from that obtain u where "find (\<lambda>u. username u = t) (users w) = Some u"
      using find_Some_ex [of "\<lambda>u. username u = t" "users w"] by blast
    moreover from this have "u \<in> set (users w) \<and> username u = t"
      by (rule find_SomeD)
    ultimately show ?thesis using that by (simp add: get_current_user_def)
  qed
  show "(\<exists>u. get_current_user w cookie = Some u) \<longleftrightarrow>
      (\<exists>name. cookie = Some name \<and> name \<noteq> [] \<and> (\<exists>u \<in> set (users w). username u = name))"
  proof (cases cookie)
    case None
    then show ?thesis by (simp add: get_current_user_def)
  next
    case (Some name)
    have "(\<exists>u. find (\<lambda>u. username u = name) (users w) = Some u) \<longleftrightarrow>
          (\<exists>u \<in> set (users w). username u = name)"
      by (rule find_Some_ex)
    with Some show ?thesis by (simp add: get_current_user_def)
  qed
qed

theorem get_current_user_total_witness:
  "get_current_user two_users (Some ''carol'') = None \<and>
   get_current_user two_users (Some ''bob'') = Some bob"
  using get_current_user_total [of two_users "''carol''" "Some ''bob''"]
    get_current_user_total [of two_users "''bob''" "Some ''bob''"]
  by (auto simp: two_users_def alice_def bob_def)

section \<open>Login\<close>

text \<open>
  What \<open>login\<close> answers, case by case: the 401 for an unknown username and for a password
  that is verified and found wrong, the uncaught exception of \<open>verify\<close> for a known User
  when \<open>verify\<close> raises, the uncaught exception of \<open>set_cookie\<close> when the password is
  right and the username cannot be encoded, and otherwise the redirect to \<open>/dashboard\<close>
  that sets the cookie to the stored username.
\<close>

lemma login_unknown:
  "\<forall>u \<in> set (users w). username u \<noteq> un \<Longrightarrow>
   login e w un pw = Inl (HTTPException 401 ''Invalid username or password'')"
proof -
  assume "\<forall>u \<in> set (users w). username u \<noteq> un"
  then have "find (\<lambda>u. username u = un) (users w) = None"
    by (auto simp: find_None_iff)
  then show ?thesis by (simp add: login_def)
qed

lemma login_known:
  assumes "find (\<lambda>u. username u = un) (users w) = Some u"
  shows "pwd_verify_raises e pw (hashed_password u) \<Longrightarrow> login e w un pw = Inl PasswordValueError"
    and "\<not> pwd_verify_raises e pw (hashed_password u) \<Longrightarrow> \<not> pwd_verify e pw (hashed_password u) \<Longrightarrow>
      login e w un pw = Inl (HTTPException 401 ''Invalid username or password'')"
    and "\<not> pwd_verify_raises e pw (hashed_password u) \<Longrightarrow> pwd_verify e pw (hashed_password u) \<Longrightarrow>
      \<not> cookie_encodable e (username u) \<Longrightarrow> login e w un pw = Inl UnicodeEncodeError"
    and "\<not> pwd_verify_raises e pw (hashed_password u) \<Longrightarrow> pwd_verify e pw (hashed_password u) \<Longrightarrow>
      cookie_encodable e (username u) \<Longrightarrow>
      login e w un pw =
        Inr (RedirectResponse ''/dashboard'' 303 (SetCookie ''username'' (username u))) \<and>
      username u = un"
  using assms find_SomeD [OF assms] by (simp_all add: login_def)

text \<open>
  Claim C3. The claim wants one and the same error for an unknown username and for a
  wrong password, whatever the password, and a session for the right password. The code
  attempts this with a single test and a single message, but misses two cases, evaluated
  here. With a password that holds a NUL byte, \<open>verify\<close> raises for the known User
  \<open>bob\<close>, whose request ends in that exception, while the unknown User \<open>carol\<close> gets the
  401 with the same password: the two causes are told apart. And the User whose stored
  username has a character above U+00FF, logging in with the right password, gets the
  exception of \<open>set_cookie\<close> instead of the session.
\<close>

theorem login_tells_known_user_apart:
  "login demo_env three_users ''bob'' nul_password = Inl PasswordValueError \<and>
   login demo_env three_users ''carol'' nul_password =
     Inl (HTTPException 401 ''Invalid username or password'') \<and>
   pwd_verify demo_env ''pw3'' (hashed_password lukasz) \<and>
   login demo_env three_users (username lukasz) ''pw3'' = Inl UnicodeEncodeError \<and>
   login demo_env three_users ''bob'' ''pw2'' =
     Inr (RedirectResponse ''/dashboard'' 303 (SetCookie ''username'' ''bob'')) \<and>
   login demo_env three_users ''bob'' ''pw1'' =
     Inl (HTTPException 401 ''Invalid username or password'')"
proof -
  have fb: "find (\<lambda>u. username u = ''bob'') (users three_users) = Some bob"
    by (simp add: three_users_def alice_def bob_def)
  have fl: "find (\<lambda>u. username u = username lukasz) (users three_users) = Some lukasz"
    by (simp add: three_users_def alice_def bob_def lukasz_def)
  have nc: "\<forall>u \<in> set (users three_users). username u \<noteq> ''carol''"
    by (simp add: three_users_def alice_def bob_def lukasz_def)
  have raises: "pwd_verify_raises demo_env nul_password (hashed_password bob)"
    by (simp add: demo_env_def nul_password_def)
  have quiet: "\<not> pwd_verify_raises demo_env ''pw3'' (hashed_password lukasz)"
    "\<not> pwd_verify_raises demo_env ''pw2'' (hashed_password bob)"
    "\<not> pwd_verify_raises demo_env ''pw1'' (hashed_password bob)"
    by (simp_all add: demo_env_def)
  have right: "pwd_verify demo_env ''pw3'' (hashed_password lukasz)"
    "pwd_verify demo_env ''pw2'' (hashed_password bob)"
    by (simp_all add: demo_env_def lukasz_def bob_def)
  have wrong: "\<not> pwd_verify demo_env ''pw1'' (hashed_password bob)"
    by (simp add: demo_env_def bob_def)
  have enc: "\<not> cookie_encodable demo_env (username lukasz)" "cookie_encodable demo_env (username bob)"
    by (simp_all add: demo_env_def lukasz_def bob_def)
  have name: "username bob = ''bob''"
    by (simp add: bob_def)
  note c1 = login_known(1) [OF fb raises]
  note c2 = login_unknown [OF nc, of demo_env nul_password]
  note c3 = login_known(3) [OF fl quiet(1) right(1) enc(1)]
  note c4 = login_known(4) [OF fb quiet(2) right(2) enc(2), THEN conjunct1]
  note c5 = login_known(2) [OF fb quiet(3) wrong]
  show ?thesis
    using c1 c2 c3 c4 c5 right(1) unfolding name by blast
qed

section \<open>Protected views\<close>

text \<open>
  Claim C9. When the session resolver finds no identity, \<open>dashboard\<close> and
  \<open>create_post\<close> answer with a 303 redirect to \<open>/login\<close>, not with an error, and
  \<open>create_post\<close> changes nothing. In particular a client that follows the response of
  \<open>logout\<close> holds no \<open>username\<close> cookie afterwards, whatever it held before, and its
  next request to either view is redirected to \<open>/login\<close>.
\<close>

theorem protected_views_redirect:
  "(get_current_user w cookie = None \<longrightarrow>
      dashboard w cookie = Inr (RedirectResponse ''/login'' 303 NoCookie) \<and>
      create_post e uuid4 now w cookie c img =
        (Inr (RedirectResponse ''/login'' 303 NoCookie), w)) \<and>
   cookie_after logout jar = None \<and>
   dashboard w (cookie_after logout jar) = Inr (RedirectResponse ''/login'' 303 NoCookie) \<and>
   create_post e uuid4 now w (cookie_after logout jar) c img =
     (Inr (RedirectResponse ''/login'' 303 NoCookie), w)"
proof -
  have out: "cookie_after logout jar = None"
    by (simp add: logout_def)
  have anon: "get_current_user w None = None"
    by (simp add: get_current_user_def)
  have d: "dashboard w k = Inr (RedirectResponse ''/login'' 303 NoCookie)"
    if "get_current_user w k = None" for k
    using that by (simp add: dashboard_def)
  have p: "create_post e uuid4 now w k c img = (Inr (RedirectResponse ''/login'' 303 NoCookie), w)"
    if "get_current_user w k = None" for k
    using that by (simp add: create_post_def)
  show ?thesis
    using out anon d p by simp
qed

theorem protected_views_redirect_witness:
  "get_current_user two_users (Some ''carol'') = None \<and>
   dashboard two_users (Some ''carol'') = Inr (RedirectResponse ''/login'' 303 NoCookie) \<and>
   create_post demo_env ''u1'' 10 two_users (Some ''carol'') ''hello'' None =
     (Inr (RedirectResponse ''/login'' 303 NoCookie), two_users) \<and>
   dashboard two_users (cookie_after logout (Some ''bob'')) =
     Inr (RedirectResponse ''/login'' 303 NoCookie)"
proof -
  have h: "get_current_user two_users (Some ''carol'') = None"
    by (simp add: get_current_user_def two_users_def alice_def bob_def)
  show ?thesis
    using h protected_views_redirect [of two_users "Some ''carol''" demo_env "''u1''" 10
        "''hello''" None "Some ''bob''"]
    by blast
qed

section \<open>Profiles\<close>

text \<open>
  Claim C10. When no User has the username of the path, \<open>user_profile\<close> raises the 404
  error "User not found", whatever cookie the request carries. When some User has it, the
  profile is returned for every cookie, also for a request without one: no identity is
  required.
\<close>

theorem profile_not_found:
  "((\<forall>u \<in> set (users w). username u \<noteq> un) \<longrightarrow>
      user_profile e w cookie un = Inl (HTTPException 404 ''User not found'')) \<and>
   ((\<exists>u \<in> set (users w). username u = un) \<longrightarrow>
      (\<exists>pu ps. user_profile e w None un =
         Inr (TemplateResponse ''profile.html'' (ProfileView pu ps None)) \<and>
         username pu = un \<and> pu \<in> set (users w)) \<and>
      (\<exists>v. user_profile e w cookie un = Inr v))"
proof (cases "find (\<lambda>u. username u = un) (users w)")
  case None
  then have "\<forall>u \<in> set (users w). username u \<noteq> un"
    by (auto simp: find_None_iff)
  with None show ?thesis by (simp add: user_profile_def)
next
  case (Some pu)
  then have mem: "pu \<in> set (users w) \<and> username pu = un"
    by (rule find_SomeD)
  then have ex: "\<not> (\<forall>u \<in> set (users w). username u \<noteq> un)" by blast
  have "get_current_user w None = None" by (simp add: get_current_user_def)
  with Some mem ex show ?thesis by (simp add: user_profile_def)
qed

theorem profile_not_found_witness:
  "user_profile demo_env two_users (Some ''bob'') ''carol'' =
     Inl (HTTPException 404 ''User not found'') \<and>
   user_profile demo_env two_users None ''carol'' =
     Inl (HTTPException 404 ''User not found'') \<and>
   (\<exists>v. user_profile demo_env two_users None ''bob'' = Inr v)"
proof -
  have n: "\<forall>u \<in> set (users two_users). username u \<noteq> ''carol''"
    by (simp add: two_users_def alice_def bob_def)
  have y: "\<exists>u \<in> set (users two_users). username u = ''bob''"
    by (simp add: two_users_def alice_def bob_def)
  show ?thesis
    using n y profile_not_found [of two_users "''carol''" demo_env "Some ''bob''"]
      profile_not_found [of two_users "''carol''" demo_env None]
      profile_not_found [of two_users "''bob''" demo_env None]
    by simp
qed

section \<open>The admin listing\<close>

text \<open>
  Claim C5. \<open>admin_dashboard\<close> raises the 403 error "Not authorized" exactly when the
  session resolver finds no identity or finds a User whose \<open>is_admin\<close> is false, and it
  raises no other error. For an admin it returns the rows of the users table in table
  order and, the engine keeping the promise of ORDER BY, all rows of the posts table
  with no post before a later one.
\<close>

theorem admin_forbidden_iff:
  "(admin_dashboard e w cookie = Inl (HTTPException 403 ''Not authorized'') \<longleftrightarrow>
      get_current_user w cookie = None \<or>
      (\<exists>u. get_current_user w cookie = Some u \<and> \<not> is_admin u)) \<and>
   (\<forall>err. admin_dashboard e w cookie = Inl err \<longrightarrow> err = HTTPException 403 ''Not authorized'') \<and>
   (\<forall>u. get_current_user w cookie = Some u \<and> is_admin u \<and>
        order_contract (order_by_created_at_desc e) \<longrightarrow>
      (\<exists>ps. admin_dashboard e w cookie =
           Inr (TemplateResponse ''admin.html'' (AdminView (users w) ps u)) \<and>
         mset ps = mset (posts w) \<and> newest_first ps))"
proof (cases "get_current_user w cookie")
  case None
  then show ?thesis by (simp add: admin_dashboard_def)
next
  case (Some u)
  show ?thesis
  proof (cases "is_admin u")
    case True
    with Some show ?thesis by (simp add: admin_dashboard_def order_contract_def)
  next
    case False
    with Some show ?thesis by (simp add: admin_dashboard_def)
  qed
qed

theorem admin_forbidden_iff_witness:
  "admin_dashboard demo_env two_users None = Inl (HTTPException 403 ''Not authorized'') \<and>
   admin_dashboard demo_env two_users (Some ''bob'') =
     Inl (HTTPException 403 ''Not authorized'') \<and>
   (\<exists>ps. admin_dashboard demo_env two_users (Some ''alice'') =
      Inr (TemplateResponse ''admin.html'' (AdminView [alice, bob] ps alice)) \<and>
      mset ps = mset (posts two_users) \<and> newest_first ps)"
proof -
  have a: "get_current_user two_users (Some ''alice'') = Some alice"
    by (simp add: get_current_user_def two_users_def alice_def bob_def)
  have b: "get_current_user two_users (Some ''bob'') = Some bob"
    by (simp add: get_current_user_def two_users_def alice_def bob_def)
  have n: "get_current_user two_users None = None"
    by (simp add: get_current_user_def)
  have adm: "is_admin alice" "\<not> is_admin bob"
    by (simp_all add: alice_def bob_def)
  have us: "users two_users = [alice, bob]"
    by (simp add: two_users_def)
  have c1: "admin_dashboard demo_env two_users None = Inl (HTTPException 403 ''Not authorized'')"
    using admin_forbidden_iff [of demo_env two_users None, THEN conjunct1] n
    by blast
  have c2: "admin_dashboard demo_env two_users (Some ''bob'') =
     Inl (HTTPException 403 ''Not authorized'')"
    using admin_forbidden_iff [of demo_env two_users "Some ''bob''", THEN conjunct1] b adm(2)
    by blast
  have c3: "\<exists>ps. admin_dashboard demo_env two_users (Some ''alice'') =
      Inr (TemplateResponse ''admin.html'' (AdminView (users two_users) ps alice)) \<and>
      mset ps = mset (posts two_users) \<and> newest_first ps"
    using admin_forbidden_iff [of demo_env two_users "Some ''alice''",
        THEN conjunct2, THEN conjunct2] a adm(1) order_contract_demo_env
    by blast
  show ?thesis
    using c1 c2 c3 unfolding us by blast
qed

section \<open>The first account\<close>

lemma register_user_cases:
  "(\<exists>err. fst (register_user e salt w un pw em) = Inl err \<and>
      snd (register_user e salt w un pw em) = w) \<or>
   (\<exists>resp nu. fst (register_user e salt w un pw em) = Inr resp \<and>
      users (snd (register_user e salt w un pw em)) = users w @ [nu] \<and>
      posts (snd (register_user e salt w un pw em)) = posts w \<and>
      is_admin nu = (users w = []))"
proof (cases "find (\<lambda>u. username u = un \<or> email u = em) (users w)")
  case None
  show ?thesis
  proof (cases "pwd_hash_raises e pw")
    case True
    with None show ?thesis by (simp add: register_user_raises)
  next
    case False
    with None show ?thesis by (simp add: register_user_fresh)
  qed
next
  case (Some u)
  then show ?thesis by (simp add: register_user_duplicate)
qed

lemma register_seq_later:
  "users w \<noteq> [] \<Longrightarrow> \<forall>v \<in> set (register_seq e w regs). \<not> is_admin v"
proof (induction regs arbitrary: w)
  case Nil
  then show ?case by simp
next
  case (Cons r rs)
  obtain salt un pw em where r: "r = (salt, un, pw, em)"
    by (cases r) auto
  obtain res w' where step: "register_user e salt w un pw em = (res, w')"
    by (cases "register_user e salt w un pw em") auto
  from register_user_cases [of e salt w un pw em] step Cons.prems
  have w': "users w' \<noteq> []" and new: "\<And>resp. res = Inr resp \<Longrightarrow> \<not> is_admin (last (users w'))"
    by auto
  from Cons.IH [OF w'] have rest: "\<forall>v \<in> set (register_seq e w' rs). \<not> is_admin v" .
  show ?case
  proof (cases res)
    case (Inl err)
    with r step rest show ?thesis by simp
  next
    case (Inr resp)
    with r step rest new show ?thesis by simp
  qed
qed

lemma register_user_empty_store:
  assumes "users w = []"
  shows "\<not> pwd_hash_raises e pw \<Longrightarrow>
      register_user e salt w un pw em =
        (Inr (RedirectResponse ''/login'' 303 NoCookie),
         w\<lparr>users := [\<lparr>u_id = 1, username = un, email = em,
                        hashed_password = pwd_hash e salt pw, is_admin = True\<rparr>],
           trace := trace w @ [CommitUser 1]\<rparr>)"
    and "pwd_hash_raises e pw \<Longrightarrow> register_user e salt w un pw em = (Inl PasswordValueError, w)"
  using assms by (simp_all add: register_user_fresh register_user_raises next_id_def)

lemma register_seq_empty_store:
  "users w = [] \<Longrightarrow>
   (register_seq e w regs = [] \<longleftrightarrow> (\<forall>r \<in> set regs. pwd_hash_raises e (fst (snd (snd r))))) \<and>
   (\<forall>u us. register_seq e w regs = u # us \<longrightarrow> is_admin u \<and> (\<forall>v \<in> set us. \<not> is_admin v))"
proof (induction regs)
  case Nil
  then show ?case by simp
next
  case (Cons r rs)
  obtain salt un pw em where r: "r = (salt, un, pw, em)"
    by (cases r) auto
  show ?case
  proof (cases "pwd_hash_raises e pw")
    case True
    with Cons.prems have "register_user e salt w un pw em = (Inl PasswordValueError, w)"
      by (rule register_user_empty_store(2))
    then have "register_seq e w (r # rs) = register_seq e w rs"
      by (simp add: r)
    with Cons.IH [OF Cons.prems] True show ?thesis
      by (simp add: r)
  next
    case False
    let ?u = "\<lparr>u_id = 1, username = un, email = em,
               hashed_password = pwd_hash e salt pw, is_admin = True\<rparr>"
    let ?w' = "w\<lparr>users := [?u], trace := trace w @ [CommitUser 1]\<rparr>"
    from Cons.prems False have step: "register_user e salt w un pw em =
        (Inr (RedirectResponse ''/login'' 303 NoCookie), ?w')"
      by (rule register_user_empty_store(1))
    then have seq: "register_seq e w (r # rs) = ?u # register_seq e ?w' rs"
      by (simp add: r)
    have "users ?w' \<noteq> []" by simp
    then have "\<forall>v \<in> set (register_seq e ?w' rs). \<not> is_admin v"
      by (rule register_seq_later)
    with seq False show ?thesis
      by (auto simp: r)
  qed
qed

text \<open>
  Claim C1. In a store without Users a registration whose password the password context
  hashes succeeds and creates a User with \<open>is_admin\<close> true; one whose password makes the
  hash raise creates nobody and leaves the store empty. In a sequence of registrations
  that starts from such a store, some registration succeeds exactly when some password
  is hashed, the first successful one creates an admin, and every later successful one
  creates a User with \<open>is_admin\<close> false, whatever the submitted fields are.
\<close>

theorem first_registration_is_admin:
  "users w = [] \<Longrightarrow>
   (\<not> pwd_hash_raises e pw \<longrightarrow>
      register_user e salt w un pw em =
        (Inr (RedirectResponse ''/login'' 303 NoCookie),
         w\<lparr>users := [\<lparr>u_id = 1, username = un, email = em,
                        hashed_password = pwd_hash e salt pw, is_admin = True\<rparr>],
           trace := trace w @ [CommitUser 1]\<rparr>)) \<and>
   (pwd_hash_raises e pw \<longrightarrow>
      register_user e salt w un pw em = (Inl PasswordValueError, w)) \<and>
   (register_seq e w regs = [] \<longleftrightarrow> (\<forall>r \<in> set regs. pwd_hash_raises e (fst (snd (snd r))))) \<and>
   (\<forall>u us. register_seq e w regs = u # us \<longrightarrow> is_admin u \<and> (\<forall>v \<in> set us. \<not> is_admin v))"
  using register_user_empty_store [of w e pw salt un em] register_seq_empty_store [of w e regs]
  by blast

theorem first_registration_is_admin_witness:
  "users empty_world = [] \<and>
   register_seq demo_env empty_world
     [(''s0'', ''eve'', nul_password, ''e@x.com''), (''s1'', ''alice'', ''pw1'', ''a@x.com''),
      (''s9'', ''alice'', ''pw9'', ''z@x.com''), (''s2'', ''bob'', ''pw2'', ''b@x.com'')] =
     [alice, bob] \<and>
   register_user demo_env ''s0'' empty_world ''eve'' nul_password ''e@x.com'' =
     (Inl PasswordValueError, empty_world) \<and>
   is_admin alice \<and> \<not> is_admin bob"
proof -
  have h: "users empty_world = []"
    by (simp add: empty_world_def)
  have nul: "pwd_hash_raises demo_env nul_password"
    by (simp add: demo_env_def nul_password_def)
  have run: "register_seq demo_env empty_world
     [(''s0'', ''eve'', nul_password, ''e@x.com''), (''s1'', ''alice'', ''pw1'', ''a@x.com''),
      (''s9'', ''alice'', ''pw9'', ''z@x.com''), (''s2'', ''bob'', ''pw2'', ''b@x.com'')] =
     [alice, bob]"
    by (simp add: register_user_def commit_user_def next_id_def Let_def empty_world_def
        demo_env_def alice_def bob_def nul_password_def)
  have "is_admin alice \<and> (\<forall>v \<in> set [bob]. \<not> is_admin v)"
    using first_registration_is_admin [OF h, of demo_env nul_password "''s0''" "''eve''"
        "''e@x.com''" "[(''s0'', ''eve'', nul_password, ''e@x.com''),
          (''s1'', ''alice'', ''pw1'', ''a@x.com''), (''s9'', ''alice'', ''pw9'', ''z@x.com''),
          (''s2'', ''bob'', ''pw2'', ''b@x.com'')]"] run
    by blast
  moreover have "register_user demo_env ''s0'' empty_world ''eve'' nul_password ''e@x.com'' =
     (Inl PasswordValueError, empty_world)"
    using first_registration_is_admin [OF h, of demo_env nul_password "''s0''" "''eve''"
        "''e@x.com''" "[]"] nul
    by blast
  ultimately show ?thesis
    using h run by simp
qed

section \<open>The store after startup\<close>


lemma save_image_tables:
  "users (snd (save_image e uuid4 w img)) = users w \<and>
   posts (snd (save_image e uuid4 w img)) = posts w"
  by (simp add: save_image_def Let_def split: option.splits prod.splits)

lemma create_post_users: "users (snd (create_post e uuid4 now w cookie c img)) = users w"
proof (cases "get_current_user w cookie")
  case None
  then show ?thesis by (simp add: create_post_def)
next
  case (Some cu)
  obtain r w1 where s: "save_image e uuid4 w img = (r, w1)"
    by (cases "save_image e uuid4 w img") auto
  with save_image_tables [of e uuid4 w img] have "users w1 = users w" by simp
  with Some s show ?thesis
    by (cases r) (simp_all add: create_post_def commit_post_def Let_def)
qed

lemma register_user_keeps_users:
  "users w \<noteq> [] \<Longrightarrow> users (snd (register_user e salt w un pw em)) \<noteq> []"
  using register_user_cases [of e salt w un pw em] by auto

lemma handle_keeps_users: "users w \<noteq> [] \<Longrightarrow> users (snd (handle e w r)) \<noteq> []"
  by (cases r) (simp_all add: register_user_keeps_users create_post_users)

lemma run_keeps_users: "users w \<noteq> [] \<Longrightarrow> users (run e w rs) \<noteq> []"
  by (induction rs arbitrary: w) (simp_all add: handle_keeps_users)

text \<open>
  Claim C2. At startup \<open>lifespan\<close> runs \<open>create_superuser\<close>: on a store without Users it
  creates the User \<open>admin\<close> with email \<open>admin@example.com\<close>, the hash of the password
  \<open>admin\<close> and \<open>is_admin\<close> true, and on any other store it changes nothing. Either way
  it completes, the store has a User afterwards, and it still has one after any sequence
  of requests that follows: no request is processed on an empty store.
\<close>

theorem startup_creates_admin:
  "(users w = [] \<longrightarrow>
      lifespan e salt w =
        Some (w\<lparr>users := [\<lparr>u_id = 1, username = ''admin'', email = ''admin@example.com'',
                             hashed_password = pwd_hash e salt ''admin'', is_admin = True\<rparr>],
               trace := trace w @ [CommitUser 1]\<rparr>)) \<and>
   (users w \<noteq> [] \<longrightarrow> lifespan e salt w = Some w) \<and>
   (\<exists>w0. lifespan e salt w = Some w0 \<and> users w0 \<noteq> [] \<and> users (run e w0 rs) \<noteq> [])"
proof (cases "users w = []")
  case True
  then have start: "lifespan e salt w =
        Some (w\<lparr>users := [\<lparr>u_id = 1, username = ''admin'', email = ''admin@example.com'',
                             hashed_password = pwd_hash e salt ''admin'', is_admin = True\<rparr>],
               trace := trace w @ [CommitUser 1]\<rparr>)"
    by (simp add: lifespan_def create_superuser_def commit_user_fresh next_id_def)
  let ?w0 = "w\<lparr>users := [\<lparr>u_id = 1, username = ''admin'', email = ''admin@example.com'',
                             hashed_password = pwd_hash e salt ''admin'', is_admin = True\<rparr>],
               trace := trace w @ [CommitUser 1]\<rparr>"
  have ne: "users ?w0 \<noteq> []" by simp
  then have "users (run e ?w0 rs) \<noteq> []" by (rule run_keeps_users)
  with True start ne show ?thesis by simp
next
  case False
  then have start: "lifespan e salt w = Some w"
    by (simp add: lifespan_def create_superuser_def)
  from False have "users (run e w rs) \<noteq> []" by (rule run_keeps_users)
  with False start show ?thesis by simp
qed

theorem startup_creates_admin_witness:
  "users empty_world = [] \<and>
   lifespan demo_env ''s0'' empty_world =
     Some \<lparr>users = [\<lparr>u_id = 1, username = ''admin'', email = ''admin@example.com'',
                      hashed_password = ''s0$admin'', is_admin = True\<rparr>],
           posts = [], files = [], trace = [CommitUser 1]\<rparr> \<and>
   users two_users \<noteq> [] \<and> lifespan demo_env ''s0'' two_users = Some two_users"
proof -
  have h: "users empty_world = []"
    by (simp add: empty_world_def)
  have k: "users two_users \<noteq> []"
    by (simp add: two_users_def)
  have c1: "lifespan demo_env ''s0'' empty_world =
     Some (empty_world\<lparr>users := [\<lparr>u_id = 1, username = ''admin'', email = ''admin@example.com'',
                      hashed_password = pwd_hash demo_env ''s0'' ''admin'', is_admin = True\<rparr>],
           trace := trace empty_world @ [CommitUser 1]\<rparr>)"
    using startup_creates_admin [of empty_world demo_env "''s0''" "[]", THEN conjunct1] h
    by blast
  have c2: "lifespan demo_env ''s0'' two_users = Some two_users"
    using startup_creates_admin [of two_users demo_env "''s0''" "[]", THEN conjunct2] k
    by blast
  show ?thesis
    using h k c1 c2 by (simp add: empty_world_def demo_env_def)
qed

section \<open>Post creation\<close>

text \<open>
  Claim C7. For a request of a resolved identity with an image (an upload whose file name
  is not empty), \<open>create_post\<close> writes the file first. When the write succeeds, the
  Post is committed after it, with the relative path of the file: the trace grows by the
  file write followed by the commit. When the write fails, the error is raised, the trace
  grows by the file write alone and the posts table is as before: no Post is created.
\<close>

theorem image_written_before_post:
  "get_current_user w cookie = Some cu \<Longrightarrow>
   img = Some up \<Longrightarrow> filename up = Some fn \<Longrightarrow> fn \<noteq> [] \<Longrightarrow>
   open_write e (files w) (UPLOAD_DIR @ ''/'' @ uuid4 @ splitext_ext e fn) (file_bytes up) = (ok, fs) \<Longrightarrow>
   (ok \<longrightarrow>
      create_post e uuid4 now w cookie c img =
        (Inr (RedirectResponse ''/dashboard'' 303 NoCookie),
         w\<lparr>posts := posts w @
              [\<lparr>p_id = next_id (map p_id (posts w)), content = c,
                image_path = Some (''uploads/'' @ uuid4 @ splitext_ext e fn),
                created_at = now, user_id = u_id cu\<rparr>],
           files := fs,
           trace := trace w @ [FileWrite (UPLOAD_DIR @ ''/'' @ uuid4 @ splitext_ext e fn),
                               CommitPost (next_id (map p_id (posts w)))]\<rparr>)) \<and>
   (\<not> ok \<longrightarrow>
      create_post e uuid4 now w cookie c img =
        (Inl OSError,
         w\<lparr>files := fs,
           trace := trace w @ [FileWrite (UPLOAD_DIR @ ''/'' @ uuid4 @ splitext_ext e fn)]\<rparr>) \<and>
      posts (snd (create_post e uuid4 now w cookie c img)) = posts w)"
  by (simp add: create_post_def save_image_def commit_post_def Let_def)

theorem image_written_before_post_witness:
  "create_post demo_env ''u1'' 10 two_users (Some ''bob'') ''hello''
       (Some \<lparr>filename = Some ''cat.png'', file_bytes = ''PNG''\<rparr>) =
     (Inr (RedirectResponse ''/dashboard'' 303 NoCookie),
      two_users\<lparr>posts := [\<lparr>p_id = 1, content = ''hello'',
                              image_path = Some ''uploads/u1.png'',
                              created_at = 10, user_id = 2\<rparr>],
        files := [(''static/uploads/u1.png'', ''PNG'')],
        trace := [FileWrite ''static/uploads/u1.png'', CommitPost 1]\<rparr>) \<and>
   create_post failing_disk ''u1'' 10 two_users (Some ''bob'') ''hello''
       (Some \<lparr>filename = Some ''cat.png'', file_bytes = ''PNG''\<rparr>) =
     (Inl OSError, two_users\<lparr>files := [], trace := [FileWrite ''static/uploads/u1.png'']\<rparr>)"
proof -
  let ?up = "\<lparr>filename = Some ''cat.png'', file_bytes = ''PNG''\<rparr>"
  have cu: "get_current_user two_users (Some ''bob'') = Some bob"
    by (simp add: get_current_user_def two_users_def alice_def bob_def)
  have fn: "filename ?up = Some ''cat.png''" "''cat.png'' \<noteq> []"
    by simp_all
  have ext: "splitext_ext demo_env ''cat.png'' = ''.png''" "splitext_ext failing_disk ''cat.png'' = ''.png''"
    by (simp_all add: demo_env_def failing_disk_def)
  have ok: "open_write demo_env (files two_users)
      (UPLOAD_DIR @ ''/'' @ ''u1'' @ splitext_ext demo_env ''cat.png'') (file_bytes ?up) =
      (True, [(''static/uploads/u1.png'', ''PNG'')])"
    unfolding ext by (simp add: demo_env_def two_users_def UPLOAD_DIR_def)
  have bad: "open_write failing_disk (files two_users)
      (UPLOAD_DIR @ ''/'' @ ''u1'' @ splitext_ext failing_disk ''cat.png'') (file_bytes ?up) =
      (False, [])"
    unfolding ext by (simp add: demo_env_def failing_disk_def two_users_def)
  have c1: "create_post demo_env ''u1'' 10 two_users (Some ''bob'') ''hello'' (Some ?up) =
        (Inr (RedirectResponse ''/dashboard'' 303 NoCookie),
         two_users\<lparr>posts := posts two_users @
              [\<lparr>p_id = next_id (map p_id (posts two_users)), content = ''hello'',
                image_path = Some (''uploads/'' @ ''u1'' @ splitext_ext demo_env ''cat.png''),
                created_at = 10, user_id = u_id bob\<rparr>],
           files := [(''static/uploads/u1.png'', ''PNG'')],
           trace := trace two_users @
             [FileWrite (UPLOAD_DIR @ ''/'' @ ''u1'' @ splitext_ext demo_env ''cat.png''),
              CommitPost (next_id (map p_id (posts two_users)))]\<rparr>)"
    using image_written_before_post [OF cu refl fn ok, of 10 "''hello''"] by blast
  have c2: "create_post failing_disk ''u1'' 10 two_users (Some ''bob'') ''hello'' (Some ?up) =
        (Inl OSError,
         two_users\<lparr>files := [],
           trace := trace two_users @
             [FileWrite (UPLOAD_DIR @ ''/'' @ ''u1'' @ splitext_ext failing_disk ''cat.png'')]\<rparr>)"
    using image_written_before_post [OF cu refl fn bad, of 10 "''hello''"] by blast
  have vals: "posts two_users = []" "trace two_users = []" "u_id bob = 2"
    "next_id (map p_id ([]::post list)) = 1"
    by (simp_all add: two_users_def bob_def next_id_def)
  show ?thesis
    using c1 c2 unfolding ext vals by (simp add: UPLOAD_DIR_def)
qed

section \<open>The posts of a profile\<close>

lemma get_current_user_find:
  "get_current_user w cookie = Some cu \<Longrightarrow>
   find (\<lambda>u. username u = username cu) (users w) = Some cu"
proof -
  assume a: "get_current_user w cookie = Some cu"
  then obtain name where f: "find (\<lambda>u. username u = name) (users w) = Some cu"
    by (auto simp: get_current_user_def split: option.splits if_splits)
  then have "username cu = name" using find_SomeD [OF f] by simp
  with f show ?thesis by simp
qed

lemma create_post_appends:
  assumes "get_current_user w cookie = Some cu"
    and "create_post e uuid4 now w cookie c img = (Inr r, w')"
  shows "users w' = users w \<and>
    (\<exists>ip. posts w' = posts w @
       [\<lparr>p_id = next_id (map p_id (posts w)), content = c, image_path = ip,
         created_at = now, user_id = u_id cu\<rparr>])"
proof -
  obtain s w1 where s: "save_image e uuid4 w img = (s, w1)"
    by (cases "save_image e uuid4 w img") auto
  with save_image_tables [of e uuid4 w img]
  have t: "users w1 = users w" "posts w1 = posts w" by simp_all
  from assms s obtain ip where "s = Inr ip" and "w' = commit_post w1 c ip now (u_id cu)"
    by (cases s) (auto simp: create_post_def)
  with t show ?thesis by (simp add: commit_post_def Let_def)
qed

lemma get_current_user_cong:
  "users w' = users w \<Longrightarrow> get_current_user w' cookie = get_current_user w cookie"
  by (cases cookie) (simp_all add: get_current_user_def)

lemma later_post_first:
  assumes "newest_first ps" and "p1 \<in> set ps" and "p2 \<in> set ps"
    and "created_at p1 < created_at p2"
  shows "\<exists>xs ys zs. ps = xs @ p2 # ys @ p1 # zs"
proof -
  from assms(3) obtain as bs where ps: "ps = as @ p2 # bs"
    by (auto dest: split_list)
  have "p1 \<notin> set as"
  proof
    assume "p1 \<in> set as"
    with assms(1) ps have "created_at p2 \<le> created_at p1"
      by (auto simp: newest_first_def sorted_wrt_append)
    with assms(4) show False by simp
  qed
  moreover from assms(4) have "p1 \<noteq> p2" by auto
  ultimately have "p1 \<in> set bs" using assms(2) ps by auto
  then obtain ys zs where "bs = ys @ p1 # zs"
    by (auto dest: split_list)
  with ps show ?thesis by blast
qed

lemma user_profile_found:
  "find (\<lambda>u. username u = un) (users w) = Some pu \<Longrightarrow>
   user_profile e w viewer un =
     Inr (TemplateResponse ''profile.html''
            (ProfileView pu
               (order_by_created_at_desc e (filter (\<lambda>p. user_id p = u_id pu) (posts w)))
               (get_current_user w viewer)))"
  by (simp add: user_profile_def)

lemma create_post_no_image:
  "get_current_user w cookie = Some cu \<Longrightarrow>
   create_post e uuid4 now w cookie c None =
     (Inr (RedirectResponse ''/dashboard'' 303 NoCookie),
      w\<lparr>posts := posts w @
           [\<lparr>p_id = next_id (map p_id (posts w)), content = c, image_path = None,
             created_at = now, user_id = u_id cu\<rparr>],
        trace := trace w @ [CommitPost (next_id (map p_id (posts w)))]\<rparr>)"
  by (simp add: create_post_def save_image_def commit_post_def Let_def)

lemma bob_logged_in:
  "users w = [alice, bob] \<Longrightarrow> get_current_user w (Some ''bob'') = Some bob"
  by (simp add: get_current_user_def alice_def bob_def)

lemma bob_found:
  "users w = [alice, bob] \<Longrightarrow> find (\<lambda>u. username u = ''bob'') (users w) = Some bob"
  by (simp add: alice_def bob_def)

lemma bob_posts:
  assumes "users w = [alice, bob]"
  shows "create_post demo_env uuid4 now w (Some ''bob'') c None =
     (Inr (RedirectResponse ''/dashboard'' 303 NoCookie),
      w\<lparr>posts := posts w @
           [\<lparr>p_id = next_id (map p_id (posts w)), content = c, image_path = None,
             created_at = now, user_id = 2\<rparr>],
        trace := trace w @ [CommitPost (next_id (map p_id (posts w)))]\<rparr>)"
proof -
  have "u_id bob = 2" by (simp add: bob_def)
  with create_post_no_image [OF bob_logged_in [OF assms], of demo_env uuid4 now c]
  show ?thesis by simp
qed

lemma two_posts_by_bob:
  "run demo_env two_users
     [PostPost uuid1 t1 (Some ''bob'') c1 None, PostPost uuid2 t2 (Some ''bob'') c2 None] =
   two_users\<lparr>posts :=
       [\<lparr>p_id = 1, content = c1, image_path = None, created_at = t1, user_id = 2\<rparr>,
        \<lparr>p_id = 2, content = c2, image_path = None, created_at = t2, user_id = 2\<rparr>],
     trace := [CommitPost 1, CommitPost 2]\<rparr>"
proof -
  have u0: "users two_users = [alice, bob]"
    by (simp add: two_users_def)
  let ?w1 = "two_users\<lparr>posts :=
       [\<lparr>p_id = 1, content = c1, image_path = None, created_at = t1, user_id = 2\<rparr>],
     trace := [CommitPost 1]\<rparr>"
  have s1: "create_post demo_env uuid1 t1 two_users (Some ''bob'') c1 None =
      (Inr (RedirectResponse ''/dashboard'' 303 NoCookie), ?w1)"
    unfolding bob_posts [OF u0] by (simp add: two_users_def next_id_def)
  have u1: "users ?w1 = [alice, bob]"
    by (simp add: two_users_def)
  have s2: "create_post demo_env uuid2 t2 ?w1 (Some ''bob'') c2 None =
      (Inr (RedirectResponse ''/dashboard'' 303 NoCookie),
       two_users\<lparr>posts :=
         [\<lparr>p_id = 1, content = c1, image_path = None, created_at = t1, user_id = 2\<rparr>,
          \<lparr>p_id = 2, content = c2, image_path = None, created_at = t2, user_id = 2\<rparr>],
        trace := [CommitPost 1, CommitPost 2]\<rparr>)"
    unfolding bob_posts [OF u1] by (simp add: two_users_def next_id_def)
  have "run demo_env two_users
     [PostPost uuid1 t1 (Some ''bob'') c1 None, PostPost uuid2 t2 (Some ''bob'') c2 None] =
     snd (create_post demo_env uuid2 t2
       (snd (create_post demo_env uuid1 t1 two_users (Some ''bob'') c1 None))
       (Some ''bob'') c2 None)"
    by simp
  also have "\<dots> = snd (create_post demo_env uuid2 t2 ?w1 (Some ''bob'') c2 None)"
    by (simp only: s1 snd_conv)
  also have "\<dots> = two_users\<lparr>posts :=
       [\<lparr>p_id = 1, content = c1, image_path = None, created_at = t1, user_id = 2\<rparr>,
        \<lparr>p_id = 2, content = c2, image_path = None, created_at = t2, user_id = 2\<rparr>],
     trace := [CommitPost 1, CommitPost 2]\<rparr>"
    by (simp only: s2 snd_conv)
  finally show ?thesis .
qed

lemma profile_of_bob:
  "users w = [alice, bob] \<Longrightarrow>
   user_profile e w None ''bob'' =
     Inr (TemplateResponse ''profile.html''
            (ProfileView bob
               (order_by_created_at_desc e (filter (\<lambda>p. user_id p = 2) (posts w))) None))"
  by (simp add: user_profile_found [OF bob_found] get_current_user_def) (simp add: bob_def)

lemma engine_is_stable:
  assumes "order_contract ord" and "keeps_ties ord"
  shows "ord ps = stable_desc ps"
proof -
  have "sort_key (\<lambda>p. - created_at p) ps = ord ps"
  proof (rule properties_for_sort_key)
    show "mset (ord ps) = mset ps"
      using assms(1) by (simp add: order_contract_def)
    show "filter (\<lambda>x. - created_at k = - created_at x) (ord ps) =
        filter (\<lambda>x. - created_at k = - created_at x) ps" for k
    proof -
      have flip: "filter (\<lambda>x. - created_at k = - created_at x) qs =
          filter (\<lambda>x. created_at x = created_at k) qs" for qs
        by (rule filter_cong) auto
      from assms(2) have "filter (\<lambda>x. created_at x = created_at k) (ord ps) =
          filter (\<lambda>x. created_at x = created_at k) ps"
        unfolding keeps_ties_def by blast
      then show ?thesis by (simp only: flip)
    qed
    have "newest_first (ord ps)"
      using assms(1) by (simp add: order_contract_def)
    then show "sorted (map (\<lambda>p. - created_at p) (ord ps))"
      by (simp add: newest_first_def sorted_map)
  qed
  then show ?thesis by (simp add: stable_desc_def)
qed

lemma fold_max_upper: "x \<in> set ids \<Longrightarrow> x \<le> fold max ids (a::nat)"
proof (induction ids arbitrary: a)
  case Nil
  then show ?case by simp
next
  case (Cons i ids)
  have mono: "b \<le> fold max ids b" for b :: nat
    by (induction ids arbitrary: b) (auto intro: order_trans [OF max.cobounded2])
  from Cons show ?case
    using mono [of "max i a"] by auto
qed

lemma next_id_greater: "x \<in> set ids \<Longrightarrow> x < next_id ids"
  using fold_max_upper [of x ids 0] by (simp add: next_id_def)

lemma commit_post_ids:
  "sorted_wrt (\<lambda>a b. p_id a < p_id b) (posts w) \<Longrightarrow>
   sorted_wrt (\<lambda>a b. p_id a < p_id b) (posts (commit_post w c ip now uid))"
  by (auto simp: commit_post_def Let_def sorted_wrt_append intro: next_id_greater)

lemma handle_keeps_ids:
  assumes "sorted_wrt (\<lambda>a b. p_id a < p_id b) (posts w)"
  shows "sorted_wrt (\<lambda>a b. p_id a < p_id b) (posts (snd (handle e w r)))"
proof (cases r)
  case (PostRegister salt un pw em)
  with assms register_user_cases [of e salt w un pw em] show ?thesis by auto
next
  case (PostPost uuid4 now cookie c img)
  show ?thesis
  proof (cases "get_current_user w cookie")
    case None
    with PostPost assms show ?thesis by (simp add: create_post_def)
  next
    case (Some cu)
    obtain s w1 where s: "save_image e uuid4 w img = (s, w1)"
      by (cases "save_image e uuid4 w img") auto
    with save_image_tables [of e uuid4 w img] have "posts w1 = posts w" by simp
    with assms have "sorted_wrt (\<lambda>a b. p_id a < p_id b) (posts w1)" by simp
    with PostPost Some s show ?thesis
      by (cases s) (simp_all add: create_post_def commit_post_ids)
  qed
qed (use assms in simp_all)

lemma run_keeps_ids:
  "sorted_wrt (\<lambda>a b. p_id a < p_id b) (posts w) \<Longrightarrow>
   sorted_wrt (\<lambda>a b. p_id a < p_id b) (posts (run e w rs))"
  by (induction rs arbitrary: w) (simp_all add: handle_keeps_ids)

text \<open>
  Claim C6, as amended. For an existing User \<open>user_profile\<close> returns exactly the Posts
  whose \<open>user_id\<close> is that User's id, with no post before one of a later \<open>created_at\<close>
  and with posts of equal \<open>created_at\<close> in the order of their insertion, which is the
  order of their ids in a store whose ids grow along the table, as they do in every store
  the routes build: the engine sorts newest first and keeps equal rows in rowid order, so
  the result is determined. When a User creates a post P1 and then a post P2 and the
  clock reads strictly later at P2, P2 comes before P1 in the profile, and the profile is
  [P2, P1] when the User had no other posts.
\<close>

theorem profile_posts_newest_first:
  assumes "order_contract (order_by_created_at_desc e)"
    and "keeps_ties (order_by_created_at_desc e)"
  shows "(find (\<lambda>u. username u = un) (users w) = Some pu \<longrightarrow>
      (\<exists>ps. user_profile e w viewer un =
           Inr (TemplateResponse ''profile.html''
                  (ProfileView pu ps (get_current_user w viewer))) \<and>
         mset ps = mset (filter (\<lambda>p. user_id p = u_id pu) (posts w)) \<and>
         newest_first ps \<and>
         (\<forall>t. filter (\<lambda>p. created_at p = t) ps =
              filter (\<lambda>p. created_at p = t) (filter (\<lambda>p. user_id p = u_id pu) (posts w))) \<and>
         (sorted_wrt (\<lambda>a b. p_id a < p_id b) (posts w) \<longrightarrow>
            (\<forall>t. sorted_wrt (\<lambda>a b. p_id a < p_id b) (filter (\<lambda>p. created_at p = t) ps))) \<and>
         ps = stable_desc (filter (\<lambda>p. user_id p = u_id pu) (posts w)))) \<and>
    (get_current_user w cookie = Some cu \<and>
     create_post e uuid1 t1 w cookie c1 img1 = (Inr r1, w1) \<and>
     create_post e uuid2 t2 w1 cookie c2 img2 = (Inr r2, w2) \<and> t1 < t2 \<longrightarrow>
      (\<exists>p1 p2 ps. posts w2 = posts w @ [p1, p2] \<and>
         content p1 = c1 \<and> created_at p1 = t1 \<and> content p2 = c2 \<and> created_at p2 = t2 \<and>
         user_profile e w2 viewer (username cu) =
           Inr (TemplateResponse ''profile.html''
                  (ProfileView cu ps (get_current_user w2 viewer))) \<and>
         (\<exists>xs ys zs. ps = xs @ p2 # ys @ p1 # zs) \<and>
         (filter (\<lambda>p. user_id p = u_id cu) (posts w) = [] \<longrightarrow> ps = [p2, p1])))"
proof (intro conjI impI)
  let ?ord = "order_by_created_at_desc e"
  from assms(1) have perm: "mset (?ord qs) = mset qs" and srt: "newest_first (?ord qs)" for qs
    by (simp_all add: order_contract_def)
  from assms(2) have ties: "filter (\<lambda>p. created_at p = t) (?ord qs) =
      filter (\<lambda>p. created_at p = t) qs" for qs t
    by (simp add: keeps_ties_def)
  show "\<exists>ps. user_profile e w viewer un =
           Inr (TemplateResponse ''profile.html''
                  (ProfileView pu ps (get_current_user w viewer))) \<and>
         mset ps = mset (filter (\<lambda>p. user_id p = u_id pu) (posts w)) \<and>
         newest_first ps \<and>
         (\<forall>t. filter (\<lambda>p. created_at p = t) ps =
              filter (\<lambda>p. created_at p = t) (filter (\<lambda>p. user_id p = u_id pu) (posts w))) \<and>
         (sorted_wrt (\<lambda>a b. p_id a < p_id b) (posts w) \<longrightarrow>
            (\<forall>t. sorted_wrt (\<lambda>a b. p_id a < p_id b) (filter (\<lambda>p. created_at p = t) ps))) \<and>
         ps = stable_desc (filter (\<lambda>p. user_id p = u_id pu) (posts w))"
    if "find (\<lambda>u. username u = un) (users w) = Some pu"
  proof (intro exI conjI)
    show "\<forall>t. filter (\<lambda>p. created_at p = t)
            (?ord (filter (\<lambda>p. user_id p = u_id pu) (posts w))) =
          filter (\<lambda>p. created_at p = t) (filter (\<lambda>p. user_id p = u_id pu) (posts w))"
      by (simp add: ties)
    show "sorted_wrt (\<lambda>a b. p_id a < p_id b) (posts w) \<longrightarrow>
        (\<forall>t. sorted_wrt (\<lambda>a b. p_id a < p_id b)
           (filter (\<lambda>p. created_at p = t) (?ord (filter (\<lambda>p. user_id p = u_id pu) (posts w)))))"
      by (simp add: ties sorted_wrt_filter)
    show "?ord (filter (\<lambda>p. user_id p = u_id pu) (posts w)) =
        stable_desc (filter (\<lambda>p. user_id p = u_id pu) (posts w))"
      using assms by (rule engine_is_stable)
    show "user_profile e w viewer un =
           Inr (TemplateResponse ''profile.html''
                  (ProfileView pu (?ord (filter (\<lambda>p. user_id p = u_id pu) (posts w)))
                     (get_current_user w viewer)))"
      using that by (rule user_profile_found)
    show "mset (?ord (filter (\<lambda>p. user_id p = u_id pu) (posts w))) =
        mset (filter (\<lambda>p. user_id p = u_id pu) (posts w))"
      by (rule perm)
    show "newest_first (?ord (filter (\<lambda>p. user_id p = u_id pu) (posts w)))"
      by (rule srt)
  qed
  show "\<exists>p1 p2 ps. posts w2 = posts w @ [p1, p2] \<and>
         content p1 = c1 \<and> created_at p1 = t1 \<and> content p2 = c2 \<and> created_at p2 = t2 \<and>
         user_profile e w2 viewer (username cu) =
           Inr (TemplateResponse ''profile.html''
                  (ProfileView cu ps (get_current_user w2 viewer))) \<and>
         (\<exists>xs ys zs. ps = xs @ p2 # ys @ p1 # zs) \<and>
         (filter (\<lambda>p. user_id p = u_id cu) (posts w) = [] \<longrightarrow> ps = [p2, p1])"
    if h: "get_current_user w cookie = Some cu \<and>
     create_post e uuid1 t1 w cookie c1 img1 = (Inr r1, w1) \<and>
     create_post e uuid2 t2 w1 cookie c2 img2 = (Inr r2, w2) \<and> t1 < t2"
  proof -
    from h have cu: "get_current_user w cookie = Some cu"
      and s1: "create_post e uuid1 t1 w cookie c1 img1 = (Inr r1, w1)"
      and s2: "create_post e uuid2 t2 w1 cookie c2 img2 = (Inr r2, w2)"
      and lt: "t1 < t2" by simp_all
    from create_post_appends [OF cu s1] obtain ip1 where
      u1: "users w1 = users w" and
      p1: "posts w1 = posts w @ [\<lparr>p_id = next_id (map p_id (posts w)), content = c1,
             image_path = ip1, created_at = t1, user_id = u_id cu\<rparr>]"
      by blast
    from cu have cu1: "get_current_user w1 cookie = Some cu"
      by (simp only: get_current_user_cong [OF u1])
    from create_post_appends [OF cu1 s2] obtain ip2 where
      u2: "users w2 = users w1" and
      p2: "posts w2 = posts w1 @ [\<lparr>p_id = next_id (map p_id (posts w1)), content = c2,
             image_path = ip2, created_at = t2, user_id = u_id cu\<rparr>]"
      by blast
    define p1 where "p1 = \<lparr>p_id = next_id (map p_id (posts w)), content = c1,
             image_path = ip1, created_at = t1, user_id = u_id cu\<rparr>"
    define p2 where "p2 = \<lparr>p_id = next_id (map p_id (posts w1)), content = c2,
             image_path = ip2, created_at = t2, user_id = u_id cu\<rparr>"
    define own where "own = filter (\<lambda>p. user_id p = u_id cu) (posts w2)"
    define ps where "ps = ?ord own"
    have fields: "content p1 = c1" "created_at p1 = t1" "user_id p1 = u_id cu"
      "content p2 = c2" "created_at p2 = t2" "user_id p2 = u_id cu"
      by (simp_all add: p1_def p2_def)
    have all: "posts w2 = posts w @ [p1, p2]"
      using p1 p2 by (simp add: p1_def p2_def)
    have own: "own = filter (\<lambda>p. user_id p = u_id cu) (posts w) @ [p1, p2]"
      by (simp add: own_def all fields)
    from cu1 have "get_current_user w2 cookie = Some cu"
      by (simp only: get_current_user_cong [OF u2])
    then have "find (\<lambda>u. username u = username cu) (users w2) = Some cu"
      by (rule get_current_user_find)
    then have prof: "user_profile e w2 viewer (username cu) =
        Inr (TemplateResponse ''profile.html'' (ProfileView cu ps (get_current_user w2 viewer)))"
      unfolding ps_def own_def by (rule user_profile_found)
    have msps: "mset ps = mset own"
      unfolding ps_def by (rule perm)
    have nf: "newest_first ps"
      unfolding ps_def by (rule srt)
    from msps have "set ps = set own"
      by (rule mset_eq_setD)
    then have mem: "p1 \<in> set ps" "p2 \<in> set ps"
      by (simp_all add: own)
    have "created_at p1 < created_at p2" using lt by (simp add: fields)
    from later_post_first [OF nf mem this]
    have between: "\<exists>xs ys zs. ps = xs @ p2 # ys @ p1 # zs" .
    have only: "ps = [p2, p1]" if none: "filter (\<lambda>p. user_id p = u_id cu) (posts w) = []"
    proof -
      from msps have "size (mset ps) = size (mset own)" by simp
      then have len: "length ps = 2"
        by (simp add: own none)
      from between obtain xs ys zs where e: "ps = xs @ p2 # ys @ p1 # zs" by blast
      from len have "length (xs @ p2 # ys @ p1 # zs) = 2"
        by (simp only: e)
      then have "xs = [] \<and> ys = [] \<and> zs = []" by simp
      with e show ?thesis by simp
    qed
    show ?thesis
    proof (rule exI [of _ p1], rule exI [of _ p2], rule exI [of _ ps], intro conjI)
      show "posts w2 = posts w @ [p1, p2]" by (rule all)
      show "content p1 = c1" "created_at p1 = t1" "content p2 = c2" "created_at p2 = t2"
        by (simp_all add: fields)
      show "user_profile e w2 viewer (username cu) =
        Inr (TemplateResponse ''profile.html'' (ProfileView cu ps (get_current_user w2 viewer)))"
        by (rule prof)
      show "\<exists>xs ys zs. ps = xs @ p2 # ys @ p1 # zs" by (rule between)
      show "filter (\<lambda>p. user_id p = u_id cu) (posts w) = [] \<longrightarrow> ps = [p2, p1]"
        using only by blast
    qed
  qed
qed

theorem profile_posts_newest_first_witness:
  "order_contract (order_by_created_at_desc demo_env) \<and>
   keeps_ties (order_by_created_at_desc demo_env) \<and>
   user_profile demo_env
       (run demo_env two_users
          [PostPost ''u1'' 10 (Some ''bob'') ''first'' None,
           PostPost ''u2'' 20 (Some ''bob'') ''second'' None])
       None ''bob'' =
     Inr (TemplateResponse ''profile.html'' (ProfileView bob [post_late, post_one] None))"
proof -
  let ?w1 = "two_users\<lparr>posts := [post_one], trace := [CommitPost 1]\<rparr>"
  let ?w2 = "two_users\<lparr>posts := [post_one, post_late], trace := [CommitPost 1, CommitPost 2]\<rparr>"
  have u0: "users two_users = [alice, bob]" and u1: "users ?w1 = [alice, bob]"
    and u2: "users ?w2 = [alice, bob]"
    by (simp_all add: two_users_def)
  have cu: "get_current_user two_users (Some ''bob'') = Some bob"
    by (rule bob_logged_in [OF u0])
  have s1: "create_post demo_env ''u1'' 10 two_users (Some ''bob'') ''first'' None =
      (Inr (RedirectResponse ''/dashboard'' 303 NoCookie), ?w1)"
    unfolding bob_posts [OF u0] by (simp add: two_users_def next_id_def post_one_def)
  have s2: "create_post demo_env ''u2'' 20 ?w1 (Some ''bob'') ''second'' None =
      (Inr (RedirectResponse ''/dashboard'' 303 NoCookie), ?w2)"
    unfolding bob_posts [OF u1]
    by (simp add: two_users_def next_id_def post_one_def post_late_def)
  have lt: "(10::int) < 20" by simp
  have none: "filter (\<lambda>p. user_id p = u_id bob) (posts two_users) = []"
    by (simp add: two_users_def)
  have runs: "run demo_env two_users
          [PostPost ''u1'' 10 (Some ''bob'') ''first'' None,
           PostPost ''u2'' 20 (Some ''bob'') ''second'' None] = ?w2"
    unfolding two_posts_by_bob by (simp add: post_one_def post_late_def)
  have name: "username bob = ''bob''"
    by (simp add: bob_def)
  have anon: "get_current_user ?w2 None = None"
    by (simp add: get_current_user_def)
  from profile_posts_newest_first [OF order_contract_demo_env keeps_ties_demo_env,
      THEN conjunct2, rule_format,
      OF conjI [OF cu conjI [OF s1 conjI [OF s2 lt]]], of None]
  obtain p1 p2 ps where ps: "posts ?w2 = posts two_users @ [p1, p2]"
    and prof: "user_profile demo_env ?w2 None (username bob) =
        Inr (TemplateResponse ''profile.html'' (ProfileView bob ps (get_current_user ?w2 None)))"
    and only: "filter (\<lambda>p. user_id p = u_id bob) (posts two_users) = [] \<longrightarrow> ps = [p2, p1]"
    by blast
  from ps have "p1 = post_one" "p2 = post_late"
    by (simp_all add: two_users_def)
  with only none have "ps = [post_late, post_one]" by simp
  with prof show ?thesis
    unfolding runs name anon using order_contract_demo_env keeps_ties_demo_env by simp
qed

text \<open>
  The claim as it was stated fails where the clock does not read strictly later at the
  second post. Two posts created one after the other with the same \<open>created_at\<close> come
  back in the order of their insertion, [P1, P2], not as [P2, P1]; and when the clock was
  set back between the two posts the profile is [P1, P2] as well.
\<close>

theorem profile_order_counterexample:
  "user_profile demo_env tied_posts None ''bob'' =
     Inr (TemplateResponse ''profile.html'' (ProfileView bob [post_one, post_two] None)) \<and>
   user_profile demo_env regressed_posts None ''bob'' =
     Inr (TemplateResponse ''profile.html'' (ProfileView bob [post_one, post_early] None)) \<and>
   posts tied_posts = [post_one, post_two] \<and>
   posts regressed_posts = [post_one, post_early] \<and>
   created_at post_one = created_at post_two \<and>
   created_at post_early < created_at post_one \<and>
   [post_one, post_two] \<noteq> [post_two, post_one] \<and>
   [post_one, post_early] \<noteq> [post_early, post_one]"
proof -
  have tied: "tied_posts = two_users\<lparr>posts := [post_one, post_two],
      trace := [CommitPost 1, CommitPost 2]\<rparr>"
    unfolding tied_posts_def two_posts_by_bob by (simp add: post_one_def post_two_def)
  have regr: "regressed_posts = two_users\<lparr>posts := [post_one, post_early],
      trace := [CommitPost 1, CommitPost 2]\<rparr>"
    unfolding regressed_posts_def two_posts_by_bob by (simp add: post_one_def post_early_def)
  have ut: "users tied_posts = [alice, bob]" and ur: "users regressed_posts = [alice, bob]"
    by (simp_all add: tied regr two_users_def)
  have pt: "posts tied_posts = [post_one, post_two]"
    and pr: "posts regressed_posts = [post_one, post_early]"
    by (simp_all add: tied regr)
  have ids: "user_id post_one = 2" "user_id post_two = 2" "user_id post_early = 2"
    by (simp_all add: post_one_def post_two_def post_early_def)
  have times: "created_at post_one = 10" "created_at post_two = 10" "created_at post_early = 5"
    by (simp_all add: post_one_def post_two_def post_early_def)
  have c1: "user_profile demo_env tied_posts None ''bob'' =
     Inr (TemplateResponse ''profile.html'' (ProfileView bob [post_one, post_two] None))"
    by (simp add: profile_of_bob [OF ut] pt ids demo_env_def stable_desc_def times)
  have c3: "user_profile demo_env regressed_posts None ''bob'' =
     Inr (TemplateResponse ''profile.html'' (ProfileView bob [post_one, post_early] None))"
    by (simp add: profile_of_bob [OF ur] pr ids demo_env_def stable_desc_def times)
  have ne: "[post_one, post_two] \<noteq> [post_two, post_one]"
    "[post_one, post_early] \<noteq> [post_early, post_one]"
    by (simp_all add: post_one_def post_two_def post_early_def)
  show ?thesis
    using c1 c3 pt pr ne by (simp add: times)
qed

end
